theory Spec2Isabelle
  imports Main
begin

section \<open>The HTTP client of webborer (client/client.go)\<close>

text \<open>
  A shallow embedding of package \<open>client\<close>: the struct \<open>httpClient\<close>, its methods
  \<open>RequestURL\<close>, \<open>makeRequest\<close>, \<open>SetCheckRedirect\<close>, \<open>addAuthHeader\<close> and
  \<open>getBasicAuthStr\<close>, and the parts of Go's standard library they call.

  Go strings are byte sequences, hence \<open>string\<close>. Every method has a pointer receiver and
  mutates the struct, so each one takes the client and returns the updated client. Calls of
  the executor and of \<open>logging.Logf\<close> are recorded, in order, in a list of events. A nil
  pointer dereference or an index out of range is the outcome \<open>Panic\<close>.

  The receiver, the URL and the value stored in field \<open>Client\<close> are taken to be non-nil.
\<close>

subsection \<open>net/http: headers, requests, responses\<close>

text \<open>
  \<open>http.Header\<close> is \<open>map[string][]string\<close>. Its methods \<open>Get\<close>, \<open>Set\<close> and \<open>Add\<close>
  read and write the entry under \<open>textproto.CanonicalMIMEHeaderKey(key)\<close>, not under the key
  as written: a key made of token bytes only is rewritten with an upper-case letter first and
  after each hyphen and lower-case letters elsewhere, any other key is left as it is. So
  \<open>Get("WWW-Authenticate")\<close> reads the entry \<open>Www-Authenticate\<close>, under which net/http stores
  that header of a response it has parsed; \<open>User-Agent\<close> and \<open>Authorization\<close> are canonical
  as written.
\<close>

type_synonym Header = "string \<rightharpoonup> string list"

text \<open>The bytes of an HTTP token: letters, digits and \<open>!#$%&'*+-.^_`|~\<close>.\<close>

definition validHeaderFieldByte :: "char \<Rightarrow> bool" where
  "validHeaderFieldByte ch =
     (let n = (of_char ch :: nat) in
      (65 \<le> n \<and> n \<le> 90) \<or> (97 \<le> n \<and> n \<le> 122) \<or> (48 \<le> n \<and> n \<le> 57)
      \<or> n \<in> set [33, 35, 36, 37, 38, 39, 42, 43, 45, 46, 94, 95, 96, 124, 126])"

text \<open>The loop of \<open>canonicalMIMEHeaderKey\<close>; \<open>upper\<close> says that the next letter is to be upper case.\<close>

fun canonicalBytes :: "bool \<Rightarrow> string \<Rightarrow> string" where
  "canonicalBytes upper [] = []"
| "canonicalBytes upper (ch # rest) =
     (let n = (of_char ch :: nat);
          ch' = (if upper \<and> 97 \<le> n \<and> n \<le> 122 then char_of (n - 32)
                 else if \<not> upper \<and> 65 \<le> n \<and> n \<le> 90 then char_of (n + 32)
                 else ch)
      in ch' # canonicalBytes (ch' = CHR ''-'') rest)"

definition CanonicalMIMEHeaderKey :: "string \<Rightarrow> string" where
  "CanonicalMIMEHeaderKey s =
     (if list_all validHeaderFieldByte s then canonicalBytes True s else s)"

definition Header_Get :: "Header \<Rightarrow> string \<Rightarrow> string" where
  "Header_Get h key =
     (case h (CanonicalMIMEHeaderKey key) of None \<Rightarrow> [] | Some [] \<Rightarrow> [] | Some (v # _) \<Rightarrow> v)"

definition Header_Set :: "Header \<Rightarrow> string \<Rightarrow> string \<Rightarrow> Header" where
  "Header_Set h key v = h(CanonicalMIMEHeaderKey key \<mapsto> [v])"

definition Header_Add :: "Header \<Rightarrow> string \<Rightarrow> string \<Rightarrow> Header" where
  "Header_Add h key v =
     h(CanonicalMIMEHeaderKey key \<mapsto>
         (case h (CanonicalMIMEHeaderKey key) of None \<Rightarrow> [] | Some vs \<Rightarrow> vs) @ [v])"

record Request =
  Method :: string
  URL :: string
  ReqHeader :: Header

record Response =
  StatusCode :: int
  RespHeader :: Header
  Body :: string

text \<open>A Go \<open>error\<close> value, by its message.\<close>

datatype error = Err string

text \<open>What \<open>Do\<close> returns: a response pointer and an error, either of which may be nil.\<close>

type_synonym reply = "Response option \<times> error option"

subsection \<open>The executor\<close>

text \<open>
  \<open>http.Client\<close>: the field the client writes, \<open>CheckRedirect\<close> (a function value, nil
  when unset), and everything else its \<open>Do\<close> depends on (transport, cookie jar, the
  network) as \<open>Transport\<close>.
\<close>

type_synonym CheckRedirectFunc = "Request \<Rightarrow> Request list \<Rightarrow> error option"

record 'h http_Client =
  Transport :: 'h
  CheckRedirect :: "CheckRedirectFunc option"

text \<open>
  A value of interface \<open>httpClientInt\<close>: a \<open>*http.Client\<close>, or a value of some other
  type with a \<open>Do\<close> method (a test double), which is what the type assertion in
  \<open>SetCheckRedirect\<close> tells apart.
\<close>

datatype ('h, 'm) httpClientInt = HTTPClient "'h http_Client" | Substitute 'm

text \<open>
  The code outside this package that the client calls and whose result is not fixed by
  the package: whether \<open>http.NewRequest\<close> accepts a method and a URL string, the \<open>Do\<close>
  method of each kind of executor (it returns its reply and the executor's next state), and
  \<open>strings.ToLower\<close>.
\<close>

record ('h, 'm) env =
  accepts :: "string \<Rightarrow> string \<Rightarrow> bool"
  clientDo :: "'h http_Client \<Rightarrow> Request \<Rightarrow> reply \<times> 'h http_Client"
  substituteDo :: "'m \<Rightarrow> Request \<Rightarrow> reply \<times> 'm"
  ToLower :: "string \<Rightarrow> string"

text \<open>\<open>http.NewRequest(method, url, nil)\<close>: nil on error, else a request with an empty header.\<close>

definition NewRequest :: "('h, 'm) env \<Rightarrow> string \<Rightarrow> string \<Rightarrow> Request option" where
  "NewRequest E method url =
     (if accepts E method url
      then Some \<lparr>Method = method, URL = url, ReqHeader = Map.empty\<rparr>
      else None)"

text \<open>The method call \<open>c.Client.Do(req)\<close>, dispatched on the dynamic type.\<close>

fun Do :: "('h, 'm) env \<Rightarrow> ('h, 'm) httpClientInt \<Rightarrow> Request \<Rightarrow> reply \<times> ('h, 'm) httpClientInt" where
  "Do E (HTTPClient cli) req = (case clientDo E cli req of (r, cli') \<Rightarrow> (r, HTTPClient cli'))"
| "Do E (Substitute m) req = (case substituteDo E m req of (r, m') \<Rightarrow> (r, Substitute m'))"

subsection \<open>strings.SplitN and base64.StdEncoding\<close>

text \<open>\<open>strings.SplitN(s, sep, n)\<close> for a separator of one byte and \<open>n \<ge> 0\<close>.\<close>

fun SplitN :: "string \<Rightarrow> char \<Rightarrow> nat \<Rightarrow> string list" where
  "SplitN s sep 0 = []"
| "SplitN s sep (Suc 0) = [s]"
| "SplitN s sep (Suc (Suc n)) =
     (if sep \<in> set s
      then takeWhile (\<lambda>x. x \<noteq> sep) s # SplitN (tl (dropWhile (\<lambda>x. x \<noteq> sep) s)) sep (Suc n)
      else [s])"

definition encodeStd :: string where
  "encodeStd = ''ABCDEFGHIJKLMNOPQRSTUVWXYZabcdefghijklmnopqrstuvwxyz0123456789+/''"

text \<open>
  \<open>base64.StdEncoding.EncodeToString\<close> (RFC 4648, with padding): three bytes give four
  characters of the alphabet; a last group of one or two bytes is padded with \<open>=\<close>.
\<close>

fun EncodeToString :: "string \<Rightarrow> string" where
  "EncodeToString [] = []"
| "EncodeToString [a] =
     (let v = (of_char a :: nat) * 65536
      in [encodeStd ! (v div 262144), encodeStd ! (v div 4096 mod 64), CHR ''='', CHR ''=''])"
| "EncodeToString [a, b] =
     (let v = (of_char a :: nat) * 65536 + of_char b * 256
      in [encodeStd ! (v div 262144), encodeStd ! (v div 4096 mod 64),
          encodeStd ! (v div 64 mod 64), CHR ''=''])"
| "EncodeToString (a # b # c # rest) =
     (let v = (of_char a :: nat) * 65536 + of_char b * 256 + of_char c
      in [encodeStd ! (v div 262144), encodeStd ! (v div 4096 mod 64),
          encodeStd ! (v div 64 mod 64), encodeStd ! (v mod 64)] @ EncodeToString rest)"

subsection \<open>The client\<close>

record ('h, 'm) httpClient =
  Client :: "('h, 'm) httpClientInt"
  UserAgent :: string
  HTTPUsername :: string
  HTTPPassword :: string
  basicAuthStr :: string

text \<open>
  Modelled from the spec: package \<open>logging\<close> is not among the sources. The spec has it as a
  write-only sink for levelled messages (info, error) whose presence never changes control
  flow. A call \<open>logging.Logf(level, format)\<close> is recorded as the event \<open>Logf level format\<close>;
  a call of the executor's \<open>Do\<close> as the event \<open>Sent req\<close>.
\<close>

datatype LogLevel = LogInfo | LogError

datatype event = Sent Request | Logf LogLevel string

text \<open>A call either returns a value or panics.\<close>

datatype 'a outcome = Panic | Return 'a

text \<open>
  \<open>makeRequest\<close> drops the error of \<open>http.NewRequest\<close>; on an error the request is nil
  and \<open>req.Header.Set\<close> dereferences it.
\<close>

definition makeRequest :: "('h, 'm) env \<Rightarrow> ('h, 'm) httpClient \<Rightarrow> string \<Rightarrow> string \<Rightarrow> Request outcome" where
  "makeRequest E c u method =
     (case NewRequest E method u of
        None \<Rightarrow> Panic
      | Some req \<Rightarrow> Return (req\<lparr>ReqHeader := Header_Set (ReqHeader req) ''User-Agent'' (UserAgent c)\<rparr>))"

definition getBasicAuthStr :: "('h, 'm) httpClient \<Rightarrow> string \<times> ('h, 'm) httpClient" where
  "getBasicAuthStr c =
     (if basicAuthStr c \<noteq> [] then (basicAuthStr c, c)
      else
        let userpass = HTTPUsername c @ '':'' @ HTTPPassword c;
            c' = c\<lparr>basicAuthStr := EncodeToString userpass\<rparr>
        in (basicAuthStr c', c'))"

text \<open>
  \<open>addAuthHeader\<close> returns its error, and the request and the client as it leaves them.
\<close>

definition addAuthHeader ::
  "('h, 'm) env \<Rightarrow> ('h, 'm) httpClient \<Rightarrow> Request \<Rightarrow> string
     \<Rightarrow> (error option \<times> Request \<times> ('h, 'm) httpClient) outcome" where
  "addAuthHeader E c req authHeader =
     (let pieces = SplitN authHeader (CHR '' '') 2 in
      case pieces of
        [] \<Rightarrow> Panic
      | p0 # _ \<Rightarrow>
          if ToLower E p0 = ''basic'' then
            (case getBasicAuthStr c of
               (s, c') \<Rightarrow>
                 Return (None,
                         req\<lparr>ReqHeader := Header_Add (ReqHeader req) ''Authorization'' (''Basic '' @ s)\<rparr>,
                         c'))
          else Return (Some (Err (''Unsupported WWW-Authenticate Method: '' @ p0)), req, c))"

text \<open>
  \<open>RequestURL\<close> returns its outcome (the pair it returns, or a panic), the client as it
  leaves it, and the events of the call.
\<close>

definition RequestURL ::
  "('h, 'm) env \<Rightarrow> ('h, 'm) httpClient \<Rightarrow> string
     \<Rightarrow> reply outcome \<times> ('h, 'm) httpClient \<times> event list" where
  "RequestURL E c u =
     (let method = ''GET'' in
      case makeRequest E c u method of
        Panic \<Rightarrow> (Panic, c, [])
      | Return req \<Rightarrow>
         (case Do E (Client c) req of
            ((resp, err), ex1) \<Rightarrow>
              let c1 = c\<lparr>Client := ex1\<rparr> in
              if err \<noteq> None then (Return (resp, err), c1, [Sent req])
              else
                (case resp of
                   None \<Rightarrow> (Panic, c1, [Sent req])
                 | Some r \<Rightarrow>
                     if StatusCode r = 401 then
                       let authHeader = Header_Get (RespHeader r) ''WWW-Authenticate'' in
                       if authHeader = [] then (Return (resp, None), c1, [Sent req])
                       else if HTTPUsername c1 = [] \<and> HTTPPassword c1 = []
                         then (Return (resp, None), c1, [Sent req])
                       else
                         (case makeRequest E c1 u method of
                            Panic \<Rightarrow> (Panic, c1, [Sent req])
                          | Return req2 \<Rightarrow>
                             (case addAuthHeader E c1 req2 authHeader of
                                Panic \<Rightarrow> (Panic, c1, [Sent req])
                              | Return (Some e, req2', c2) \<Rightarrow>
                                  (case e of Err msg \<Rightarrow>
                                     (Return (resp, None), c2, [Sent req, Logf LogInfo msg]))
                              | Return (None, req2', c2) \<Rightarrow>
                                  (case Do E (Client c2) req2' of
                                     ((resp2, err2), ex2) \<Rightarrow>
                                       let c3 = c2\<lparr>Client := ex2\<rparr> in
                                       if err2 \<noteq> None
                                         then (Return (resp2, err2), c3, [Sent req, Sent req2'])
                                       else (Return (resp2, None), c3, [Sent req, Sent req2']))))
                     else (Return (resp, None), c1, [Sent req]))))"

text \<open>
  \<open>SetCheckRedirect\<close>: the type assertion \<open>c.Client.(*http.Client)\<close> succeeds on an
  \<open>HTTPClient\<close> only; the assignment goes through the pointer held in the interface value.
\<close>

definition SetCheckRedirect ::
  "('h, 'm) httpClient \<Rightarrow> CheckRedirectFunc option \<Rightarrow> ('h, 'm) httpClient \<times> event list" where
  "SetCheckRedirect c checker =
     (case Client c of
        HTTPClient cli \<Rightarrow> (c\<lparr>Client := HTTPClient (cli\<lparr>CheckRedirect := checker\<rparr>)\<rparr>, [])
      | Substitute m \<Rightarrow> (c, [Logf LogError ''Unable to set CheckRedirect, type assertion failed.'']))"

subsection \<open>Notions the properties are stated with\<close>

text \<open>The scheme token of a challenge: the text before its first space.\<close>

definition schemeToken :: "string \<Rightarrow> string" where
  "schemeToken authHeader = takeWhile (\<lambda>x. x \<noteq> CHR '' '') authHeader"

text \<open>The cached string is empty or the encoding of the client's own credentials.\<close>

definition cacheValid :: "('h, 'm) httpClient \<Rightarrow> bool" where
  "cacheValid c \<longleftrightarrow>
     basicAuthStr c = [] \<or> basicAuthStr c = EncodeToString (HTTPUsername c @ '':'' @ HTTPPassword c)"

text \<open>The requests handed to the executor, in order.\<close>

fun sends :: "event list \<Rightarrow> Request list" where
  "sends [] = []"
| "sends (Sent req # es) = req # sends es"
| "sends (Logf l m # es) = sends es"

text \<open>
  The operations of a client, and a client's state after a sequence of them; a panicking
  call leaves the client as it was when the panic happened.
\<close>

datatype operation =
  OpRequestURL string
| OpAddAuthHeader Request string
| OpGetBasicAuthStr
| OpSetCheckRedirect "CheckRedirectFunc option"

fun apply_operation :: "('h, 'm) env \<Rightarrow> ('h, 'm) httpClient \<Rightarrow> operation \<Rightarrow> ('h, 'm) httpClient" where
  "apply_operation E c (OpRequestURL u) = fst (snd (RequestURL E c u))"
| "apply_operation E c (OpAddAuthHeader req h) =
     (case addAuthHeader E c req h of Panic \<Rightarrow> c | Return (e, req', c') \<Rightarrow> c')"
| "apply_operation E c OpGetBasicAuthStr = snd (getBasicAuthStr c)"
| "apply_operation E c (OpSetCheckRedirect checker) = fst (SetCheckRedirect c checker)"

fun run :: "('h, 'm) env \<Rightarrow> ('h, 'm) httpClient \<Rightarrow> operation list \<Rightarrow> ('h, 'm) httpClient" where
  "run E c [] = c"
| "run E c (op # ops) = run E (apply_operation E c op) ops"

subsection \<open>A test double and concrete inputs\<close>

text \<open>
  An executor that replays canned replies, as the package's tests substitute for
  \<open>http.Client\<close>, and an environment whose \<open>ToLower\<close> lower-cases ASCII letters.
\<close>

fun replay :: "reply list \<Rightarrow> Request \<Rightarrow> reply \<times> reply list" where
  "replay [] req = ((None, Some (Err ''no more replies'')), [])"
| "replay (r # rs) req = (r, rs)"

definition lowerChar :: "char \<Rightarrow> char" where
  "lowerChar ch =
     (let n = (of_char ch :: nat) in if 65 \<le> n \<and> n \<le> 90 then char_of (n + 32) else ch)"

definition testEnv :: "(unit, reply list) env" where
  "testEnv = \<lparr>accepts = (\<lambda>method url. url \<noteq> []),
              clientDo = (\<lambda>cli req. ((None, Some (Err ''no network'')), cli)),
              substituteDo = replay,
              ToLower = map lowerChar\<rparr>"

definition testClient :: "reply list \<Rightarrow> string \<Rightarrow> string \<Rightarrow> (unit, reply list) httpClient" where
  "testClient rs user pass =
     \<lparr>Client = Substitute rs, UserAgent = ''webborer'',
      HTTPUsername = user, HTTPPassword = pass, basicAuthStr = []\<rparr>"

definition realClient :: "(unit, reply list) httpClient" where
  "realClient =
     \<lparr>Client = HTTPClient \<lparr>Transport = (), CheckRedirect = None\<rparr>, UserAgent = ''webborer'',
      HTTPUsername = ''user'', HTTPPassword = ''pass'', basicAuthStr = []\<rparr>"

definition response :: "int \<Rightarrow> (string \<times> string list) list \<Rightarrow> Response" where
  "response code hs = \<lparr>StatusCode = code, RespHeader = map_of hs, Body = []\<rparr>"

definition getRequest :: "(string \<times> string list) list \<Rightarrow> Request" where
  "getRequest hs = \<lparr>Method = ''GET'', URL = ''http://localhost/'', ReqHeader = map_of hs\<rparr>"

text \<open>A 401 with one challenge, stored under the canonical key as net/http stores it.\<close>

definition challenge :: "string \<Rightarrow> Response" where
  "challenge ch = response 401 [(''Www-Authenticate'', [ch])]"

definition uaRequest :: Request where
  "uaRequest = getRequest [(''User-Agent'', [''webborer''])]"

section \<open>Properties\<close>

subsection \<open>Auxiliary facts\<close>

text \<open>The canonical forms of the three keys the client uses.\<close>

lemma canonical_keys:
  "CanonicalMIMEHeaderKey ''WWW-Authenticate'' = ''Www-Authenticate''"
  "CanonicalMIMEHeaderKey ''User-Agent'' = ''User-Agent''"
  "CanonicalMIMEHeaderKey ''Authorization'' = ''Authorization''"
  by code_simp+

text \<open>
  An entry written into the map under \<open>WWW-Authenticate\<close> itself, as a test double can do,
  is not what \<open>Get("WWW-Authenticate")\<close> reads.
\<close>

lemma Header_Get_raw_key:
  "Header_Get [''WWW-Authenticate'' \<mapsto> [''Basic realm=x'']] ''WWW-Authenticate'' = []"
  "Header_Get [''Www-Authenticate'' \<mapsto> [''Basic realm=x'']] ''WWW-Authenticate'' = ''Basic realm=x''"
  by (simp_all add: Header_Get_def canonical_keys)

lemma SplitN_2: "SplitN s sep 2 =
    (if sep \<in> set s then [takeWhile (\<lambda>x. x \<noteq> sep) s, tl (dropWhile (\<lambda>x. x \<noteq> sep) s)] else [s])"
  by (simp add: numeral_2_eq_2)

lemma SplitN_2_first: "\<exists>rest. SplitN s sep 2 = takeWhile (\<lambda>x. x \<noteq> sep) s # rest"
proof (cases "sep \<in> set s")
  case True
  then show ?thesis by (simp add: SplitN_2)
next
  case False
  then have "takeWhile (\<lambda>x. x \<noteq> sep) s = s"
    unfolding takeWhile_eq_all_conv by auto
  with False show ?thesis by (metis SplitN_2)
qed


text \<open>\<open>addAuthHeader\<close> never indexes out of range, and decides on the scheme token.\<close>

lemma addAuthHeader_eq:
  "addAuthHeader E c req h =
     (if ToLower E (schemeToken h) = ''basic''
      then Return (None,
             req\<lparr>ReqHeader := Header_Add (ReqHeader req) ''Authorization''
                                (''Basic '' @ fst (getBasicAuthStr c))\<rparr>,
             snd (getBasicAuthStr c))
      else Return (Some (Err (''Unsupported WWW-Authenticate Method: '' @ schemeToken h)), req, c))"
proof -
  obtain rest where "SplitN h (CHR '' '') 2 = schemeToken h # rest"
    using SplitN_2_first [of h "CHR '' ''"] by (auto simp: schemeToken_def)
  then show ?thesis
    by (simp add: addAuthHeader_def split: prod.split)
qed

lemma getBasicAuthStr_Client:
  "getBasicAuthStr (c\<lparr>Client := ex\<rparr>) =
     (fst (getBasicAuthStr c), (snd (getBasicAuthStr c))\<lparr>Client := ex\<rparr>)"
  by (simp add: getBasicAuthStr_def Let_def)

lemma getBasicAuthStr_fields:
  "Client (snd (getBasicAuthStr c)) = Client c"
  "UserAgent (snd (getBasicAuthStr c)) = UserAgent c"
  "HTTPUsername (snd (getBasicAuthStr c)) = HTTPUsername c"
  "HTTPPassword (snd (getBasicAuthStr c)) = HTTPPassword c"
  by (simp_all add: getBasicAuthStr_def Let_def)

lemma getBasicAuthStr_valid:
  assumes "cacheValid c"
  shows "fst (getBasicAuthStr c) = EncodeToString (HTTPUsername c @ '':'' @ HTTPPassword c)"
    and "basicAuthStr (snd (getBasicAuthStr c)) = EncodeToString (HTTPUsername c @ '':'' @ HTTPPassword c)"
  using assms by (auto simp: getBasicAuthStr_def cacheValid_def Let_def)

lemma makeRequest_Client:
  "makeRequest E (c\<lparr>Client := ex\<rparr>) u m = makeRequest E c u m"
  by (simp add: makeRequest_def split: option.split)

text \<open>The path with a retry: both sends, and the reply of the second one returned as it is.\<close>

lemma RequestURL_retry:
  assumes mk: "makeRequest E c u ''GET'' = Return req"
    and first: "Do E (Client c) req = ((Some r, None), ex1)"
    and st: "StatusCode r = 401"
    and hdr: "Header_Get (RespHeader r) ''WWW-Authenticate'' \<noteq> []"
    and basic: "ToLower E (schemeToken (Header_Get (RespHeader r) ''WWW-Authenticate'')) = ''basic''"
    and cred: "HTTPUsername c \<noteq> [] \<or> HTTPPassword c \<noteq> []"
    and second: "Do E ex1 (req\<lparr>ReqHeader := Header_Add (ReqHeader req) ''Authorization''
                                  (''Basic '' @ fst (getBasicAuthStr c))\<rparr>) = ((resp2, err2), ex2)"
  shows "RequestURL E c u =
           (Return (resp2, err2), (snd (getBasicAuthStr c))\<lparr>Client := ex2\<rparr>,
            [Sent req,
             Sent (req\<lparr>ReqHeader := Header_Add (ReqHeader req) ''Authorization''
                                  (''Basic '' @ fst (getBasicAuthStr c))\<rparr>)])"
  using cred second
  by (cases err2)
     (simp_all add: RequestURL_def Let_def mk first st hdr basic makeRequest_Client
        addAuthHeader_eq getBasicAuthStr_Client getBasicAuthStr_fields)

text \<open>The paths that stop after one successful send.\<close>

lemma RequestURL_single:
  assumes mk: "makeRequest E c u ''GET'' = Return req"
    and first: "Do E (Client c) req = ((Some r, None), ex1)"
    and stop: "StatusCode r \<noteq> 401 \<or> Header_Get (RespHeader r) ''WWW-Authenticate'' = []
               \<or> (HTTPUsername c = [] \<and> HTTPPassword c = [])"
  shows "RequestURL E c u = (Return (Some r, None), c\<lparr>Client := ex1\<rparr>, [Sent req])"
  using stop by (auto simp: RequestURL_def Let_def mk first)

lemma makeRequest_Return:
  "makeRequest E c u m = Return req \<Longrightarrow>
     req = \<lparr>Method = m, URL = u, ReqHeader = [''User-Agent'' \<mapsto> [UserAgent c]]\<rparr>"
  by (auto simp: makeRequest_def NewRequest_def Header_Set_def canonical_keys split: if_splits)

lemma getBasicAuthStr_valid_snd:
  "cacheValid c \<Longrightarrow>
     snd (getBasicAuthStr c) = c\<lparr>basicAuthStr := EncodeToString (HTTPUsername c @ '':'' @ HTTPPassword c)\<rparr>"
  by (auto simp: getBasicAuthStr_def cacheValid_def Let_def)


lemma getBasicAuthStr_cacheValid: "cacheValid c \<Longrightarrow> cacheValid (snd (getBasicAuthStr c))"
  by (auto simp: getBasicAuthStr_def cacheValid_def Let_def)

lemma cacheValid_Client: "cacheValid (c\<lparr>Client := ex\<rparr>) = cacheValid c"
  by (simp add: cacheValid_def)

lemma getBasicAuthStr_test:
  "getBasicAuthStr (testClient rs ''user'' ''pass'') =
     (''dXNlcjpwYXNz'', (testClient rs ''user'' ''pass'')\<lparr>basicAuthStr := ''dXNlcjpwYXNz''\<rparr>)"
  by (simp add: getBasicAuthStr_def testClient_def encodeStd_def)

lemma RequestURL_client:
  "(\<exists>ex. fst (snd (RequestURL E c u)) = c\<lparr>Client := ex\<rparr>)
   \<or> (\<exists>ex. fst (snd (RequestURL E c u)) = (snd (getBasicAuthStr c))\<lparr>Client := ex\<rparr>)
   \<or> fst (snd (RequestURL E c u)) = c"
  by (auto simp: RequestURL_def Let_def addAuthHeader_eq getBasicAuthStr_Client makeRequest_Client
      split: outcome.split prod.split option.split error.split)

text \<open>No call, returning or panicking, sends more than twice.\<close>

lemma RequestURL_sends:
  "length (sends (snd (snd (RequestURL E c u)))) \<le> 2"
  by (auto simp: RequestURL_def Let_def addAuthHeader_eq
      split: outcome.split prod.split option.split error.split)

text \<open>The concrete inputs evaluated.\<close>

lemma lower_Basic: "map lowerChar ''Basic'' = ''basic''"
  by code_simp

lemma lower_Digest: "map lowerChar ''Digest'' \<noteq> ''basic''"
  by code_simp

lemma makeRequest_test:
  "makeRequest testEnv (testClient rs user pass) ''http://localhost/'' ''GET''
     = Return (getRequest [(''User-Agent'', [''webborer''])])"
  by (simp add: makeRequest_def NewRequest_def testEnv_def testClient_def getRequest_def
      Header_Set_def canonical_keys)

lemma Do_test:
  "Do testEnv (Client (testClient (r # rs) user pass)) req = (r, Substitute rs)"
  by (simp add: testEnv_def testClient_def)

lemma Do_replay: "Do testEnv (Substitute (r # rs)) req = (r, Substitute rs)"
  by (simp add: testEnv_def)

lemma makeRequest_ua:
  "makeRequest testEnv (testClient rs user pass) ''http://localhost/'' ''GET'' = Return uaRequest"
  by (simp add: uaRequest_def makeRequest_test)

lemma challenge_facts:
  "StatusCode (challenge ch) = 401"
  "Header_Get (RespHeader (challenge ch)) ''WWW-Authenticate'' = ch"
  by (simp_all add: challenge_def response_def Header_Get_def canonical_keys)

lemma ToLower_testEnv: "ToLower testEnv = map lowerChar"
  by (simp add: testEnv_def)

lemma token_Basic: "ToLower testEnv (schemeToken ''Basic realm=x'') = ''basic''"
proof -
  have "schemeToken ''Basic realm=x'' = ''Basic''"
    by (simp add: schemeToken_def)
  then show ?thesis
    by (simp only: ToLower_testEnv lower_Basic)
qed

lemma token_Digest: "ToLower testEnv (schemeToken ''Digest realm=x'') \<noteq> ''basic''"
proof -
  have "schemeToken ''Digest realm=x'' = ''Digest''"
    by (simp add: schemeToken_def)
  then show ?thesis
    using lower_Digest by (simp only: ToLower_testEnv not_False_eq_True)
qed

lemma encode_user_pass: "EncodeToString (''user'' @ '':'' @ ''pass'') = ''dXNlcjpwYXNz''"
  by (simp add: encodeStd_def)

lemma testClient_fields:
  "HTTPUsername (testClient rs user pass) = user"
  "HTTPPassword (testClient rs user pass) = pass"
  "basicAuthStr (testClient rs user pass) = []"
  "cacheValid (testClient rs user pass)"
  by (simp_all add: testClient_def cacheValid_def)

lemma RequestURL_ok_test:
  "RequestURL testEnv (testClient [(Some (response 200 []), None)] [] []) ''http://localhost/''
     = (Return (Some (response 200 []), None),
        (testClient [(Some (response 200 []), None)] [] [])\<lparr>Client := Substitute []\<rparr>,
        [Sent uaRequest])"
proof (rule RequestURL_single [OF makeRequest_ua])
  show "Do testEnv (Client (testClient [(Some (response 200 []), None)] [] [])) uaRequest
          = ((Some (response 200 []), None), Substitute [])"
    by (rule Do_test)
  show "StatusCode (response 200 []) \<noteq> 401
        \<or> Header_Get (RespHeader (response 200 [])) ''WWW-Authenticate'' = []
        \<or> (HTTPUsername (testClient [(Some (response 200 []), None)] [] []) = []
            \<and> HTTPPassword (testClient [(Some (response 200 []), None)] [] []) = [])"
    by (simp add: response_def)
qed

text \<open>Each operation keeps the cache valid and the credentials as they are.\<close>

lemma apply_operation_inv:
  assumes "cacheValid c"
  shows "cacheValid (apply_operation E c op)
         \<and> HTTPUsername (apply_operation E c op) = HTTPUsername c
         \<and> HTTPPassword (apply_operation E c op) = HTTPPassword c"
proof (cases op)
  case (OpRequestURL u)
  from RequestURL_client [of E c u] assms show ?thesis
    unfolding OpRequestURL
    by (auto simp: cacheValid_Client getBasicAuthStr_cacheValid getBasicAuthStr_fields)
next
  case (OpAddAuthHeader req h)
  with assms show ?thesis
    by (simp add: addAuthHeader_eq getBasicAuthStr_cacheValid getBasicAuthStr_fields)
next
  case OpGetBasicAuthStr
  with assms show ?thesis
    by (simp add: getBasicAuthStr_cacheValid getBasicAuthStr_fields)
next
  case (OpSetCheckRedirect checker)
  with assms show ?thesis
    by (simp add: SetCheckRedirect_def cacheValid_def split: httpClientInt.split)
qed

subsection \<open>A response that is not a 401\<close>

text \<open>
  C2. When the first send succeeds with a response whose status is not 401, \<open>RequestURL\<close>
  returns that response with a nil error, and the executor has been called exactly once.
\<close>

theorem RequestURL_non401:
  assumes "makeRequest E c u ''GET'' = Return req"
    and "Do E (Client c) req = ((Some r, None), ex1)"
    and "StatusCode r \<noteq> 401"
  shows "RequestURL E c u = (Return (Some r, None), c\<lparr>Client := ex1\<rparr>, [Sent req])
         \<and> sends (snd (snd (RequestURL E c u))) = [req]"
  using RequestURL_single [OF assms(1,2)] assms(3) by simp

theorem RequestURL_non401_witness:
  "makeRequest testEnv (testClient [(Some (response 200 []), None)] [] []) ''http://localhost/'' ''GET''
     = Return (getRequest [(''User-Agent'', [''webborer''])])
   \<and> Do testEnv (Client (testClient [(Some (response 200 []), None)] [] []))
        (getRequest [(''User-Agent'', [''webborer''])]) = ((Some (response 200 []), None), Substitute [])
   \<and> StatusCode (response 200 []) \<noteq> 401
   \<and> RequestURL testEnv (testClient [(Some (response 200 []), None)] [] []) ''http://localhost/''
       = (Return (Some (response 200 []), None),
          (testClient [(Some (response 200 []), None)] [] [])\<lparr>Client := Substitute []\<rparr>,
          [Sent (getRequest [(''User-Agent'', [''webborer''])])])"
proof -
  have h1: "makeRequest testEnv (testClient [(Some (response 200 []), None)] [] []) ''http://localhost/'' ''GET''
     = Return (getRequest [(''User-Agent'', [''webborer''])])"
    by (rule makeRequest_test)
  have h2: "Do testEnv (Client (testClient [(Some (response 200 []), None)] [] []))
        (getRequest [(''User-Agent'', [''webborer''])]) = ((Some (response 200 []), None), Substitute [])"
    by (rule Do_test)
  have h3: "StatusCode (response 200 []) \<noteq> 401"
    by (simp add: response_def)
  from RequestURL_non401 [OF h1 h2 h3] h1 h2 h3 show ?thesis by blast
qed

subsection \<open>A 401 without a challenge\<close>

text \<open>
  C5. When the first send returns a 401 whose \<open>WWW-Authenticate\<close> header is absent (no
  entry under the canonical key \<open>Www-Authenticate\<close>, or an entry without values) or empty,
  \<open>RequestURL\<close> returns that response with a nil error, and the executor has been called
  exactly once.
\<close>

theorem RequestURL_no_challenge:
  assumes "makeRequest E c u ''GET'' = Return req"
    and "Do E (Client c) req = ((Some r, None), ex1)"
    and "StatusCode r = 401"
    and "RespHeader r ''Www-Authenticate'' = None
         \<or> RespHeader r ''Www-Authenticate'' = Some []
         \<or> (\<exists>vs. RespHeader r ''Www-Authenticate'' = Some ([] # vs))"
  shows "RequestURL E c u = (Return (Some r, None), c\<lparr>Client := ex1\<rparr>, [Sent req])
         \<and> sends (snd (snd (RequestURL E c u))) = [req]"
proof -
  from assms(4) have "Header_Get (RespHeader r) ''WWW-Authenticate'' = []"
    by (auto simp: Header_Get_def canonical_keys)
  with RequestURL_single [OF assms(1,2)] show ?thesis by simp
qed

theorem RequestURL_no_challenge_witness:
  "makeRequest testEnv (testClient [(Some (response 401 []), None)] ''user'' ''pass'')
      ''http://localhost/'' ''GET'' = Return uaRequest
   \<and> Do testEnv (Client (testClient [(Some (response 401 []), None)] ''user'' ''pass'')) uaRequest
       = ((Some (response 401 []), None), Substitute [])
   \<and> StatusCode (response 401 []) = 401
   \<and> RespHeader (response 401 []) ''Www-Authenticate'' = None
   \<and> RequestURL testEnv (testClient [(Some (response 401 []), None)] ''user'' ''pass'')
        ''http://localhost/''
       = (Return (Some (response 401 []), None),
          (testClient [(Some (response 401 []), None)] ''user'' ''pass'')\<lparr>Client := Substitute []\<rparr>,
          [Sent uaRequest])
   \<and> sends (snd (snd (RequestURL testEnv
                 (testClient [(Some (response 401 []), None)] ''user'' ''pass'')
                 ''http://localhost/''))) = [uaRequest]"
proof -
  let ?c = "testClient [(Some (response 401 []), None)] ''user'' ''pass''"
  have mk: "makeRequest testEnv ?c ''http://localhost/'' ''GET'' = Return uaRequest"
    by (rule makeRequest_ua)
  have first: "Do testEnv (Client ?c) uaRequest = ((Some (response 401 []), None), Substitute [])"
    by (rule Do_test)
  have st: "StatusCode (response 401 []) = 401"
    by (simp add: response_def)
  have none: "RespHeader (response 401 []) ''Www-Authenticate'' = None"
    by (simp add: response_def)
  then have hdr: "RespHeader (response 401 []) ''Www-Authenticate'' = None
         \<or> RespHeader (response 401 []) ''Www-Authenticate'' = Some []
         \<or> (\<exists>vs. RespHeader (response 401 []) ''Www-Authenticate'' = Some ([] # vs))"
    by simp
  from RequestURL_no_challenge [OF mk first st hdr] mk first st none show ?thesis by blast
qed

subsection \<open>A 401 with a challenge of another scheme\<close>

text \<open>
  C3. When the first send returns a 401 that carries a challenge whose scheme token, in lower
  case, is not \<open>basic\<close>, and a credential is configured, \<open>RequestURL\<close> logs the error of
  \<open>addAuthHeader\<close>, returns the 401 it received with a nil error, and has called the
  executor exactly once.
\<close>

theorem RequestURL_unsupported_scheme:
  assumes mk: "makeRequest E c u ''GET'' = Return req"
    and first: "Do E (Client c) req = ((Some r, None), ex1)"
    and st: "StatusCode r = 401"
    and hdr: "Header_Get (RespHeader r) ''WWW-Authenticate'' \<noteq> []"
    and other: "ToLower E (schemeToken (Header_Get (RespHeader r) ''WWW-Authenticate'')) \<noteq> ''basic''"
    and cred: "HTTPUsername c \<noteq> [] \<or> HTTPPassword c \<noteq> []"
  shows "RequestURL E c u =
           (Return (Some r, None), c\<lparr>Client := ex1\<rparr>,
            [Sent req,
             Logf LogInfo (''Unsupported WWW-Authenticate Method: ''
                           @ schemeToken (Header_Get (RespHeader r) ''WWW-Authenticate''))])
         \<and> sends (snd (snd (RequestURL E c u))) = [req]"
  using cred
  by (simp add: RequestURL_def Let_def mk first st hdr other makeRequest_Client addAuthHeader_eq)

theorem RequestURL_unsupported_scheme_witness:
  "makeRequest testEnv (testClient [(Some (challenge ''Digest realm=x''), None)] ''user'' ''pass'')
      ''http://localhost/'' ''GET'' = Return uaRequest
   \<and> Do testEnv (Client (testClient [(Some (challenge ''Digest realm=x''), None)] ''user'' ''pass''))
        uaRequest
       = ((Some (challenge ''Digest realm=x''), None), Substitute [])
   \<and> StatusCode (challenge ''Digest realm=x'') = 401
   \<and> Header_Get (RespHeader (challenge ''Digest realm=x'')) ''WWW-Authenticate'' \<noteq> []
   \<and> ToLower testEnv (schemeToken (Header_Get (RespHeader (challenge ''Digest realm=x''))
                                      ''WWW-Authenticate'')) \<noteq> ''basic''
   \<and> HTTPUsername (testClient [(Some (challenge ''Digest realm=x''), None)] ''user'' ''pass'') \<noteq> []
   \<and> RequestURL testEnv (testClient [(Some (challenge ''Digest realm=x''), None)] ''user'' ''pass'')
        ''http://localhost/''
       = (Return (Some (challenge ''Digest realm=x''), None),
          (testClient [(Some (challenge ''Digest realm=x''), None)] ''user'' ''pass'')
            \<lparr>Client := Substitute []\<rparr>,
          [Sent uaRequest, Logf LogInfo ''Unsupported WWW-Authenticate Method: Digest''])"
proof -
  let ?c = "testClient [(Some (challenge ''Digest realm=x''), None)] ''user'' ''pass''"
  have mk: "makeRequest testEnv ?c ''http://localhost/'' ''GET'' = Return uaRequest"
    by (rule makeRequest_ua)
  have first: "Do testEnv (Client ?c) uaRequest
                 = ((Some (challenge ''Digest realm=x''), None), Substitute [])"
    by (rule Do_test)
  have st: "StatusCode (challenge ''Digest realm=x'') = 401"
    by (simp add: challenge_facts)
  have hdr: "Header_Get (RespHeader (challenge ''Digest realm=x'')) ''WWW-Authenticate'' \<noteq> []"
    by (simp add: challenge_facts)
  have other: "ToLower testEnv (schemeToken (Header_Get (RespHeader (challenge ''Digest realm=x''))
                                      ''WWW-Authenticate'')) \<noteq> ''basic''"
    using token_Digest by (simp add: challenge_facts)
  have cred: "HTTPUsername ?c \<noteq> [] \<or> HTTPPassword ?c \<noteq> []"
    by (simp add: testClient_fields)
  have user: "HTTPUsername ?c \<noteq> []"
    by (simp add: testClient_fields)
  have tok: "schemeToken (Header_Get (RespHeader (challenge ''Digest realm=x'')) ''WWW-Authenticate'')
               = ''Digest''"
    by (simp add: challenge_facts schemeToken_def)
  from RequestURL_unsupported_scheme [OF mk first st hdr other cred]
  have "RequestURL testEnv ?c ''http://localhost/''
       = (Return (Some (challenge ''Digest realm=x''), None), ?c\<lparr>Client := Substitute []\<rparr>,
          [Sent uaRequest, Logf LogInfo ''Unsupported WWW-Authenticate Method: Digest''])"
    unfolding tok by simp
  with mk first st hdr other user show ?thesis by blast
qed

subsection \<open>Transport errors\<close>

text \<open>
  C4. An error returned by the executor is returned to the caller with the response that came
  with it, and no send follows it: for the first send, and for the send of the retry.
\<close>

theorem RequestURL_transport_error:
  "(makeRequest E c u ''GET'' = Return req \<longrightarrow>
    Do E (Client c) req = ((resp, Some e), ex1) \<longrightarrow>
      RequestURL E c u = (Return (resp, Some e), c\<lparr>Client := ex1\<rparr>, [Sent req]))
   \<and>
   (makeRequest E c u ''GET'' = Return req \<longrightarrow>
    Do E (Client c) req = ((Some r, None), ex1) \<longrightarrow>
    StatusCode r = 401 \<longrightarrow>
    Header_Get (RespHeader r) ''WWW-Authenticate'' \<noteq> [] \<longrightarrow>
    ToLower E (schemeToken (Header_Get (RespHeader r) ''WWW-Authenticate'')) = ''basic'' \<longrightarrow>
    (HTTPUsername c \<noteq> [] \<or> HTTPPassword c \<noteq> []) \<longrightarrow>
    Do E ex1 (req\<lparr>ReqHeader := Header_Add (ReqHeader req) ''Authorization''
                               (''Basic '' @ fst (getBasicAuthStr c))\<rparr>) = ((resp2, Some e2), ex2) \<longrightarrow>
      RequestURL E c u =
        (Return (resp2, Some e2), (snd (getBasicAuthStr c))\<lparr>Client := ex2\<rparr>,
         [Sent req,
          Sent (req\<lparr>ReqHeader := Header_Add (ReqHeader req) ''Authorization''
                               (''Basic '' @ fst (getBasicAuthStr c))\<rparr>)]))"
proof (intro conjI impI)
  assume "makeRequest E c u ''GET'' = Return req" "Do E (Client c) req = ((resp, Some e), ex1)"
  then show "RequestURL E c u = (Return (resp, Some e), c\<lparr>Client := ex1\<rparr>, [Sent req])"
    by (simp add: RequestURL_def Let_def)
next
  assume "makeRequest E c u ''GET'' = Return req"
    "Do E (Client c) req = ((Some r, None), ex1)"
    "StatusCode r = 401"
    "Header_Get (RespHeader r) ''WWW-Authenticate'' \<noteq> []"
    "ToLower E (schemeToken (Header_Get (RespHeader r) ''WWW-Authenticate'')) = ''basic''"
    "HTTPUsername c \<noteq> [] \<or> HTTPPassword c \<noteq> []"
    "Do E ex1 (req\<lparr>ReqHeader := Header_Add (ReqHeader req) ''Authorization''
                               (''Basic '' @ fst (getBasicAuthStr c))\<rparr>) = ((resp2, Some e2), ex2)"
  then show "RequestURL E c u =
        (Return (resp2, Some e2), (snd (getBasicAuthStr c))\<lparr>Client := ex2\<rparr>,
         [Sent req,
          Sent (req\<lparr>ReqHeader := Header_Add (ReqHeader req) ''Authorization''
                               (''Basic '' @ fst (getBasicAuthStr c))\<rparr>)])"
    by (rule RequestURL_retry)
qed

theorem RequestURL_transport_error_witness:
  "makeRequest testEnv (testClient [(None, Some (Err ''connection refused''))] [] [])
      ''http://localhost/'' ''GET'' = Return uaRequest
   \<and> Do testEnv (Client (testClient [(None, Some (Err ''connection refused''))] [] [])) uaRequest
       = ((None, Some (Err ''connection refused'')), Substitute [])
   \<and> RequestURL testEnv (testClient [(None, Some (Err ''connection refused''))] [] [])
        ''http://localhost/''
       = (Return (None, Some (Err ''connection refused'')),
          (testClient [(None, Some (Err ''connection refused''))] [] [])\<lparr>Client := Substitute []\<rparr>,
          [Sent uaRequest])
   \<and> makeRequest testEnv (testClient [(Some (challenge ''Basic realm=x''), None),
                                      (None, Some (Err ''connection reset''))] ''user'' ''pass'')
      ''http://localhost/'' ''GET'' = Return uaRequest
   \<and> Do testEnv (Client (testClient [(Some (challenge ''Basic realm=x''), None),
                                     (None, Some (Err ''connection reset''))] ''user'' ''pass''))
        uaRequest
       = ((Some (challenge ''Basic realm=x''), None), Substitute [(None, Some (Err ''connection reset''))])
   \<and> StatusCode (challenge ''Basic realm=x'') = 401
   \<and> Header_Get (RespHeader (challenge ''Basic realm=x'')) ''WWW-Authenticate'' \<noteq> []
   \<and> ToLower testEnv (schemeToken (Header_Get (RespHeader (challenge ''Basic realm=x''))
                                      ''WWW-Authenticate'')) = ''basic''
   \<and> HTTPUsername (testClient [(Some (challenge ''Basic realm=x''), None),
                                 (None, Some (Err ''connection reset''))] ''user'' ''pass'') \<noteq> []
   \<and> Do testEnv (Substitute [(None, Some (Err ''connection reset''))])
        (uaRequest\<lparr>ReqHeader := Header_Add (ReqHeader uaRequest) ''Authorization''
            (''Basic '' @ fst (getBasicAuthStr (testClient [(Some (challenge ''Basic realm=x''), None),
                                 (None, Some (Err ''connection reset''))] ''user'' ''pass'')))\<rparr>)
       = ((None, Some (Err ''connection reset'')), Substitute [])
   \<and> RequestURL testEnv (testClient [(Some (challenge ''Basic realm=x''), None),
                                     (None, Some (Err ''connection reset''))] ''user'' ''pass'')
        ''http://localhost/''
       = (Return (None, Some (Err ''connection reset'')),
          (snd (getBasicAuthStr (testClient [(Some (challenge ''Basic realm=x''), None),
                                 (None, Some (Err ''connection reset''))] ''user'' ''pass'')))
            \<lparr>Client := Substitute []\<rparr>,
          [Sent uaRequest,
           Sent (uaRequest\<lparr>ReqHeader := Header_Add (ReqHeader uaRequest) ''Authorization''
            (''Basic '' @ fst (getBasicAuthStr (testClient [(Some (challenge ''Basic realm=x''), None),
                                 (None, Some (Err ''connection reset''))] ''user'' ''pass'')))\<rparr>)])"
proof -
  let ?c1 = "testClient [(None, Some (Err ''connection refused''))] [] []"
  let ?c2 = "testClient [(Some (challenge ''Basic realm=x''), None),
                         (None, Some (Err ''connection reset''))] ''user'' ''pass''"
  have mk1: "makeRequest testEnv ?c1 ''http://localhost/'' ''GET'' = Return uaRequest"
    by (rule makeRequest_ua)
  have first1: "Do testEnv (Client ?c1) uaRequest
       = ((None, Some (Err ''connection refused'')), Substitute [])"
    by (rule Do_test)
  have mk2: "makeRequest testEnv ?c2 ''http://localhost/'' ''GET'' = Return uaRequest"
    by (rule makeRequest_ua)
  have first2: "Do testEnv (Client ?c2) uaRequest
       = ((Some (challenge ''Basic realm=x''), None), Substitute [(None, Some (Err ''connection reset''))])"
    by (rule Do_test)
  have st: "StatusCode (challenge ''Basic realm=x'') = 401"
    by (simp add: challenge_facts)
  have hdr: "Header_Get (RespHeader (challenge ''Basic realm=x'')) ''WWW-Authenticate'' \<noteq> []"
    by (simp add: challenge_facts)
  have basic: "ToLower testEnv (schemeToken (Header_Get (RespHeader (challenge ''Basic realm=x''))
                                      ''WWW-Authenticate'')) = ''basic''"
    by (simp add: challenge_facts token_Basic)
  have cred: "HTTPUsername ?c2 \<noteq> [] \<or> HTTPPassword ?c2 \<noteq> []"
    by (simp add: testClient_fields)
  have user: "HTTPUsername ?c2 \<noteq> []"
    by (simp add: testClient_fields)
  have second: "Do testEnv (Substitute [(None, Some (Err ''connection reset''))])
        (uaRequest\<lparr>ReqHeader := Header_Add (ReqHeader uaRequest) ''Authorization''
            (''Basic '' @ fst (getBasicAuthStr ?c2))\<rparr>)
       = ((None, Some (Err ''connection reset'')), Substitute [])"
    by (rule Do_replay)
  note part1 = RequestURL_transport_error [THEN conjunct1, rule_format, OF mk1 first1]
  note part2 = RequestURL_transport_error
     [THEN conjunct2, rule_format, OF mk2 first2 st hdr basic cred second]
  from part1 part2 mk1 first1 mk2 first2 st hdr basic user second show ?thesis by blast
qed

subsection \<open>A 401 with a Basic challenge\<close>

text \<open>
  C1, as it fails: the first send returns a 401 with a Basic challenge, the credentials are
  \<open>user\<close> and \<open>pass\<close>, and the second send fails; \<open>RequestURL\<close> returns the error of the
  second send, not a nil error.
\<close>

theorem RequestURL_basic_retry_counterexample:
  "Do testEnv (Client (testClient [(Some (challenge ''Basic realm=x''), None),
                                   (None, Some (Err ''connection reset''))] ''user'' ''pass''))
      uaRequest
     = ((Some (challenge ''Basic realm=x''), None), Substitute [(None, Some (Err ''connection reset''))])
   \<and> StatusCode (challenge ''Basic realm=x'') = 401
   \<and> ToLower testEnv (schemeToken (Header_Get (RespHeader (challenge ''Basic realm=x''))
                                      ''WWW-Authenticate'')) = ''basic''
   \<and> HTTPUsername (testClient [(Some (challenge ''Basic realm=x''), None),
                                (None, Some (Err ''connection reset''))] ''user'' ''pass'') \<noteq> []
   \<and> fst (RequestURL testEnv
            (testClient [(Some (challenge ''Basic realm=x''), None),
                         (None, Some (Err ''connection reset''))] ''user'' ''pass'')
            ''http://localhost/'')
       = Return (None, Some (Err ''connection reset''))"
proof -
  let ?c = "testClient [(Some (challenge ''Basic realm=x''), None),
                        (None, Some (Err ''connection reset''))] ''user'' ''pass''"
  have first: "Do testEnv (Client ?c) uaRequest
     = ((Some (challenge ''Basic realm=x''), None), Substitute [(None, Some (Err ''connection reset''))])"
    by (rule Do_test)
  have "RequestURL testEnv ?c ''http://localhost/'' =
          (Return (None, Some (Err ''connection reset'')),
           (snd (getBasicAuthStr ?c))\<lparr>Client := Substitute []\<rparr>,
           [Sent uaRequest,
            Sent (uaRequest\<lparr>ReqHeader := Header_Add (ReqHeader uaRequest) ''Authorization''
                                  (''Basic '' @ fst (getBasicAuthStr ?c))\<rparr>)])"
  proof (rule RequestURL_retry [OF makeRequest_ua first])
    show "StatusCode (challenge ''Basic realm=x'') = 401"
      by (simp add: challenge_facts)
    show "Header_Get (RespHeader (challenge ''Basic realm=x'')) ''WWW-Authenticate'' \<noteq> []"
      by (simp add: challenge_facts)
    show "ToLower testEnv (schemeToken (Header_Get (RespHeader (challenge ''Basic realm=x''))
                                      ''WWW-Authenticate'')) = ''basic''"
      by (simp add: challenge_facts token_Basic)
    show "HTTPUsername ?c \<noteq> [] \<or> HTTPPassword ?c \<noteq> []"
      by (simp add: testClient_fields)
    show "Do testEnv (Substitute [(None, Some (Err ''connection reset''))])
            (uaRequest\<lparr>ReqHeader := Header_Add (ReqHeader uaRequest) ''Authorization''
                                  (''Basic '' @ fst (getBasicAuthStr ?c))\<rparr>)
          = ((None, Some (Err ''connection reset'')), Substitute [])"
      by (rule Do_replay)
  qed
  with first show ?thesis
    by (simp add: challenge_facts token_Basic testClient_fields)
qed

text \<open>
  C1, amended. When the first send returns a 401 that carries a challenge whose scheme token, in
  lower case, is \<open>basic\<close>, a credential is configured, and the cached string is empty or the
  encoding of the credentials, \<open>RequestURL\<close> sends a second request whose \<open>Authorization\<close>
  header is \<open>Basic\<close>, a space and the base64 encoding of username, colon, password, and returns
  what the second send returned: its response and its error, which is nil when that send
  succeeded.
\<close>

theorem RequestURL_basic_retry:
  assumes mk: "makeRequest E c u ''GET'' = Return req"
    and first: "Do E (Client c) req = ((Some r, None), ex1)"
    and st: "StatusCode r = 401"
    and hdr: "Header_Get (RespHeader r) ''WWW-Authenticate'' \<noteq> []"
    and basic: "ToLower E (schemeToken (Header_Get (RespHeader r) ''WWW-Authenticate'')) = ''basic''"
    and cred: "HTTPUsername c \<noteq> [] \<or> HTTPPassword c \<noteq> []"
    and valid: "cacheValid c"
    and second: "Do E ex1 (req\<lparr>ReqHeader := Header_Add (ReqHeader req) ''Authorization''
                   (''Basic '' @ EncodeToString (HTTPUsername c @ '':'' @ HTTPPassword c))\<rparr>)
                 = ((resp2, err2), ex2)"
  shows "RequestURL E c u =
           (Return (resp2, err2),
            c\<lparr>basicAuthStr := EncodeToString (HTTPUsername c @ '':'' @ HTTPPassword c),
              Client := ex2\<rparr>,
            [Sent req,
             Sent (req\<lparr>ReqHeader := Header_Add (ReqHeader req) ''Authorization''
                   (''Basic '' @ EncodeToString (HTTPUsername c @ '':'' @ HTTPPassword c))\<rparr>)])
         \<and> Header_Get (Header_Add (ReqHeader req) ''Authorization''
                   (''Basic '' @ EncodeToString (HTTPUsername c @ '':'' @ HTTPPassword c)))
               ''Authorization''
             = ''Basic '' @ EncodeToString (HTTPUsername c @ '':'' @ HTTPPassword c)
         \<and> (err2 = None \<longrightarrow> fst (RequestURL E c u) = Return (resp2, None))"
proof -
  let ?enc = "EncodeToString (HTTPUsername c @ '':'' @ HTTPPassword c)"
  have g: "fst (getBasicAuthStr c) = ?enc" "snd (getBasicAuthStr c) = c\<lparr>basicAuthStr := ?enc\<rparr>"
    using valid by (simp_all add: getBasicAuthStr_valid getBasicAuthStr_valid_snd)
  have run: "RequestURL E c u =
           (Return (resp2, err2), c\<lparr>basicAuthStr := ?enc, Client := ex2\<rparr>,
            [Sent req,
             Sent (req\<lparr>ReqHeader := Header_Add (ReqHeader req) ''Authorization'' (''Basic '' @ ?enc)\<rparr>)])"
    using RequestURL_retry [OF mk first st hdr basic cred, of resp2 err2 ex2] second
    by (simp add: g)
  have "ReqHeader req ''Authorization'' = None"
    using makeRequest_Return [OF mk] by simp
  then have hd: "Header_Get (Header_Add (ReqHeader req) ''Authorization'' (''Basic '' @ ?enc))
                  ''Authorization'' = ''Basic '' @ ?enc"
    by (simp add: Header_Get_def Header_Add_def canonical_keys)
  from run hd show ?thesis by simp
qed

theorem RequestURL_basic_retry_witness:
  "makeRequest testEnv (testClient [(Some (challenge ''Basic realm=x''), None),
                                    (Some (response 200 []), None)] ''user'' ''pass'')
      ''http://localhost/'' ''GET'' = Return uaRequest
   \<and> Do testEnv (Client (testClient [(Some (challenge ''Basic realm=x''), None),
                                     (Some (response 200 []), None)] ''user'' ''pass''))
      uaRequest
     = ((Some (challenge ''Basic realm=x''), None), Substitute [(Some (response 200 []), None)])
   \<and> StatusCode (challenge ''Basic realm=x'') = 401
   \<and> Header_Get (RespHeader (challenge ''Basic realm=x'')) ''WWW-Authenticate'' \<noteq> []
   \<and> ToLower testEnv (schemeToken (Header_Get (RespHeader (challenge ''Basic realm=x''))
                                      ''WWW-Authenticate'')) = ''basic''
   \<and> HTTPUsername (testClient [(Some (challenge ''Basic realm=x''), None),
                                 (Some (response 200 []), None)] ''user'' ''pass'') \<noteq> []
   \<and> cacheValid (testClient [(Some (challenge ''Basic realm=x''), None),
                              (Some (response 200 []), None)] ''user'' ''pass'')
   \<and> RequestURL testEnv
        (testClient [(Some (challenge ''Basic realm=x''), None),
                     (Some (response 200 []), None)] ''user'' ''pass'')
        ''http://localhost/''
       = (Return (Some (response 200 []), None),
          (testClient [(Some (challenge ''Basic realm=x''), None),
                       (Some (response 200 []), None)] ''user'' ''pass'')
            \<lparr>basicAuthStr := ''dXNlcjpwYXNz'', Client := Substitute []\<rparr>,
          [Sent uaRequest,
           Sent (uaRequest\<lparr>ReqHeader := Header_Add (ReqHeader uaRequest) ''Authorization''
                                  ''Basic dXNlcjpwYXNz''\<rparr>)])
   \<and> Header_Get (Header_Add (ReqHeader uaRequest) ''Authorization'' ''Basic dXNlcjpwYXNz'')
        ''Authorization'' = ''Basic dXNlcjpwYXNz''"
proof -
  let ?c = "testClient [(Some (challenge ''Basic realm=x''), None),
                        (Some (response 200 []), None)] ''user'' ''pass''"
  have mk: "makeRequest testEnv ?c ''http://localhost/'' ''GET'' = Return uaRequest"
    by (rule makeRequest_ua)
  have first: "Do testEnv (Client ?c) uaRequest
     = ((Some (challenge ''Basic realm=x''), None), Substitute [(Some (response 200 []), None)])"
    by (rule Do_test)
  have st: "StatusCode (challenge ''Basic realm=x'') = 401"
    by (simp add: challenge_facts)
  have hdr: "Header_Get (RespHeader (challenge ''Basic realm=x'')) ''WWW-Authenticate'' \<noteq> []"
    by (simp add: challenge_facts)
  have basic: "ToLower testEnv (schemeToken (Header_Get (RespHeader (challenge ''Basic realm=x''))
                                      ''WWW-Authenticate'')) = ''basic''"
    by (simp add: challenge_facts token_Basic)
  have cred: "HTTPUsername ?c \<noteq> [] \<or> HTTPPassword ?c \<noteq> []"
    by (simp add: testClient_fields)
  have user: "HTTPUsername ?c \<noteq> []"
    by (simp add: testClient_fields)
  have valid: "cacheValid ?c"
    by (simp add: testClient_fields)
  have second: "Do testEnv (Substitute [(Some (response 200 []), None)])
       (uaRequest\<lparr>ReqHeader := Header_Add (ReqHeader uaRequest) ''Authorization''
                   (''Basic '' @ EncodeToString (HTTPUsername ?c @ '':'' @ HTTPPassword ?c))\<rparr>)
                 = ((Some (response 200 []), None), Substitute [])"
    by (rule Do_replay)
  have enc: "EncodeToString (HTTPUsername ?c @ '':'' @ HTTPPassword ?c) = ''dXNlcjpwYXNz''"
    by (simp only: testClient_fields encode_user_pass)
  from RequestURL_basic_retry [OF mk first st hdr basic cred valid second]
  have "RequestURL testEnv ?c ''http://localhost/''
       = (Return (Some (response 200 []), None),
          ?c\<lparr>basicAuthStr := ''dXNlcjpwYXNz'', Client := Substitute []\<rparr>,
          [Sent uaRequest,
           Sent (uaRequest\<lparr>ReqHeader := Header_Add (ReqHeader uaRequest) ''Authorization''
                                  ''Basic dXNlcjpwYXNz''\<rparr>)])
   \<and> Header_Get (Header_Add (ReqHeader uaRequest) ''Authorization'' ''Basic dXNlcjpwYXNz'')
        ''Authorization'' = ''Basic dXNlcjpwYXNz''"
    unfolding enc by simp
  with mk first st hdr basic user valid show ?thesis by blast
qed

subsection \<open>The number of sends\<close>

text \<open>
  C6, as it fails: a call whose only send returns a 200 returns after exactly one send, which is
  neither zero sends nor two.
\<close>

theorem RequestURL_zero_or_two_sends_counterexample:
  "fst (RequestURL testEnv (testClient [(Some (response 200 []), None)] [] []) ''http://localhost/'')
     = Return (Some (response 200 []), None)
   \<and> length (sends (snd (snd (RequestURL testEnv
                 (testClient [(Some (response 200 []), None)] [] []) ''http://localhost/'')))) = 1
   \<and> length (sends (snd (snd (RequestURL testEnv
                 (testClient [(Some (response 200 []), None)] [] []) ''http://localhost/'')))) \<noteq> 0
   \<and> length (sends (snd (snd (RequestURL testEnv
                 (testClient [(Some (response 200 []), None)] [] []) ''http://localhost/'')))) \<noteq> 2"
  by (simp add: RequestURL_ok_test)

text \<open>
  C6, amended. Every call of \<open>RequestURL\<close> that returns has called the executor either once or
  twice.
\<close>

theorem RequestURL_one_or_two_sends:
  assumes "RequestURL E c u = (Return rep, c', tr)"
  shows "length (sends tr) = 1 \<or> length (sends tr) = 2"
  using assms
  by (auto simp: RequestURL_def Let_def addAuthHeader_eq
      split: outcome.splits prod.splits option.splits error.splits if_splits)

theorem RequestURL_one_or_two_sends_witness:
  "RequestURL testEnv (testClient [(Some (response 200 []), None)] [] []) ''http://localhost/''
     = (Return (Some (response 200 []), None),
        (testClient [(Some (response 200 []), None)] [] [])\<lparr>Client := Substitute []\<rparr>,
        [Sent uaRequest])
   \<and> (length (sends [Sent uaRequest]) = 1 \<or> length (sends [Sent uaRequest]) = 2)"
  using RequestURL_one_or_two_sends [OF RequestURL_ok_test] RequestURL_ok_test by blast

subsection \<open>The cached string\<close>

text \<open>
  C7. Starting from a client whose cached string is empty or the base64 encoding of username,
  colon, password (a new client's is empty), after any sequence of \<open>RequestURL\<close>,
  \<open>addAuthHeader\<close>, \<open>getBasicAuthStr\<close> and \<open>SetCheckRedirect\<close> the cached string is again
  empty or that encoding, and the credentials are the ones the client started with.
\<close>

theorem cache_invariant:
  assumes "cacheValid c"
  shows "cacheValid (run E c ops)
         \<and> HTTPUsername (run E c ops) = HTTPUsername c
         \<and> HTTPPassword (run E c ops) = HTTPPassword c"
  using assms
proof (induction ops arbitrary: c)
  case Nil
  then show ?case by simp
next
  case (Cons op ops)
  from apply_operation_inv [OF Cons.prems, of E op]
  have step: "cacheValid (apply_operation E c op)"
    "HTTPUsername (apply_operation E c op) = HTTPUsername c"
    "HTTPPassword (apply_operation E c op) = HTTPPassword c"
    by simp_all
  from Cons.IH [OF step(1)] step(2,3) show ?case by simp
qed

theorem cache_invariant_witness:
  "cacheValid (testClient [(Some (challenge ''Basic realm=x''), None),
                           (Some (response 200 []), None)] ''user'' ''pass'')
   \<and> cacheValid (run testEnv
        (testClient [(Some (challenge ''Basic realm=x''), None),
                     (Some (response 200 []), None)] ''user'' ''pass'')
        [OpRequestURL ''http://localhost/'', OpGetBasicAuthStr, OpSetCheckRedirect None,
         OpAddAuthHeader uaRequest ''Basic realm=x''])
   \<and> HTTPUsername (run testEnv
        (testClient [(Some (challenge ''Basic realm=x''), None),
                     (Some (response 200 []), None)] ''user'' ''pass'')
        [OpRequestURL ''http://localhost/'', OpGetBasicAuthStr, OpSetCheckRedirect None,
         OpAddAuthHeader uaRequest ''Basic realm=x'']) = ''user''
   \<and> HTTPPassword (run testEnv
        (testClient [(Some (challenge ''Basic realm=x''), None),
                     (Some (response 200 []), None)] ''user'' ''pass'')
        [OpRequestURL ''http://localhost/'', OpGetBasicAuthStr, OpSetCheckRedirect None,
         OpAddAuthHeader uaRequest ''Basic realm=x'']) = ''pass''
   \<and> basicAuthStr (run testEnv (testClient [] ''user'' ''pass'') [OpGetBasicAuthStr])
       = ''dXNlcjpwYXNz''"
proof -
  let ?c = "testClient [(Some (challenge ''Basic realm=x''), None),
                        (Some (response 200 []), None)] ''user'' ''pass''"
  have valid: "cacheValid ?c"
    by (simp add: testClient_fields)
  have filled: "basicAuthStr (run testEnv (testClient [] ''user'' ''pass'') [OpGetBasicAuthStr])
       = ''dXNlcjpwYXNz''"
    by (simp add: getBasicAuthStr_test)
  from cache_invariant [OF valid, of testEnv
      "[OpRequestURL ''http://localhost/'', OpGetBasicAuthStr, OpSetCheckRedirect None,
        OpAddAuthHeader uaRequest ''Basic realm=x'']"]
    valid filled
  show ?thesis by (simp only: testClient_fields simp_thms)
qed



subsection \<open>The redirect policy\<close>

text \<open>
  C9. On an executor that is not a \<open>*http.Client\<close>, \<open>SetCheckRedirect\<close> logs at
  \<open>LogError\<close> and leaves the client as it is, so a later \<open>RequestURL\<close> does what it would
  have done; on a \<open>*http.Client\<close> it stores the policy in \<open>CheckRedirect\<close> and changes
  nothing else.
\<close>

theorem SetCheckRedirect_effect:
  "(Client c = Substitute m \<longrightarrow>
      SetCheckRedirect c checker
        = (c, [Logf LogError ''Unable to set CheckRedirect, type assertion failed.''])
      \<and> RequestURL E (fst (SetCheckRedirect c checker)) u = RequestURL E c u)
   \<and> (Client c = HTTPClient cli \<longrightarrow>
      SetCheckRedirect c checker
        = (c\<lparr>Client := HTTPClient (cli\<lparr>CheckRedirect := checker\<rparr>)\<rparr>, []))"
  by (simp add: SetCheckRedirect_def)

theorem SetCheckRedirect_effect_witness:
  "Client (testClient [] [] []) = Substitute []
   \<and> SetCheckRedirect (testClient [] [] []) (Some (\<lambda>req via. Some (Err ''no redirects'')))
       = (testClient [] [] [], [Logf LogError ''Unable to set CheckRedirect, type assertion failed.''])
   \<and> RequestURL testEnv
        (fst (SetCheckRedirect (testClient [] [] []) (Some (\<lambda>req via. Some (Err ''no redirects'')))))
        ''http://localhost/''
       = RequestURL testEnv (testClient [] [] []) ''http://localhost/''
   \<and> Client realClient = HTTPClient \<lparr>Transport = (), CheckRedirect = None\<rparr>
   \<and> SetCheckRedirect realClient (Some (\<lambda>req via. Some (Err ''no redirects'')))
       = (realClient\<lparr>Client := HTTPClient \<lparr>Transport = (),
                                            CheckRedirect = Some (\<lambda>req via. Some (Err ''no redirects''))\<rparr>\<rparr>,
          [])"
proof -
  let ?f = "Some (\<lambda>(req :: Request) (via :: Request list). Some (Err ''no redirects''))"
  have sub: "Client (testClient [] [] []) = Substitute []"
    by (simp add: testClient_def)
  have real: "Client realClient = HTTPClient \<lparr>Transport = (), CheckRedirect = None\<rparr>"
    by (simp add: realClient_def)
  note a = SetCheckRedirect_effect [of "testClient [] [] []" "[]" ?f testEnv "''http://localhost/''",
      THEN conjunct1, rule_format, OF sub]
  note b = SetCheckRedirect_effect [of realClient _ ?f _ _ "\<lparr>Transport = (), CheckRedirect = None\<rparr>",
      THEN conjunct2, rule_format, OF real]
  from b have b': "SetCheckRedirect realClient ?f
       = (realClient\<lparr>Client := HTTPClient \<lparr>Transport = (), CheckRedirect = ?f\<rparr>\<rparr>, [])"
    by simp
  from a b' sub real show ?thesis by blast
qed

subsection \<open>The request given to addAuthHeader\<close>

text \<open>
  C10. When the scheme token of the challenge is \<open>basic\<close> in lower case, \<open>addAuthHeader\<close>
  returns no error and appends one value to the \<open>Authorization\<close> header of the request, every
  other header (\<open>User-Agent\<close> among them) staying as it was. For any other token it returns an
  error and the request is unchanged; whenever it returns an error the request is unchanged. A
  challenge that starts with a space has the empty token and gets the error.
\<close>

theorem addAuthHeader_frame:
  "(ToLower E (schemeToken h) = ''basic'' \<longrightarrow>
      addAuthHeader E c req h
        = Return (None,
                  req\<lparr>ReqHeader := Header_Add (ReqHeader req) ''Authorization''
                                     (''Basic '' @ fst (getBasicAuthStr c))\<rparr>,
                  snd (getBasicAuthStr c))
      \<and> Header_Add (ReqHeader req) ''Authorization'' (''Basic '' @ fst (getBasicAuthStr c))
            ''Authorization''
          = Some ((case ReqHeader req ''Authorization'' of None \<Rightarrow> [] | Some vs \<Rightarrow> vs)
                  @ [''Basic '' @ fst (getBasicAuthStr c)])
      \<and> (\<forall>k. k \<noteq> ''Authorization'' \<longrightarrow>
            Header_Add (ReqHeader req) ''Authorization'' (''Basic '' @ fst (getBasicAuthStr c)) k
              = ReqHeader req k)
      \<and> Header_Add (ReqHeader req) ''Authorization'' (''Basic '' @ fst (getBasicAuthStr c))
            ''User-Agent''
          = ReqHeader req ''User-Agent'')
   \<and> (ToLower E (schemeToken h) \<noteq> ''basic'' \<longrightarrow>
      addAuthHeader E c req h
        = Return (Some (Err (''Unsupported WWW-Authenticate Method: '' @ schemeToken h)), req, c))
   \<and> (\<forall>e req' c'. addAuthHeader E c req h = Return (Some e, req', c') \<longrightarrow> req' = req)
   \<and> (ToLower E [] \<noteq> ''basic'' \<longrightarrow>
      addAuthHeader E c req (CHR '' '' # rest)
        = Return (Some (Err ''Unsupported WWW-Authenticate Method: ''), req, c))"
proof (intro conjI impI allI)
  assume "ToLower E (schemeToken h) = ''basic''"
  then show "addAuthHeader E c req h
        = Return (None,
                  req\<lparr>ReqHeader := Header_Add (ReqHeader req) ''Authorization''
                                     (''Basic '' @ fst (getBasicAuthStr c))\<rparr>,
                  snd (getBasicAuthStr c))"
    by (simp add: addAuthHeader_eq)
next
  show "Header_Add (ReqHeader req) ''Authorization'' (''Basic '' @ fst (getBasicAuthStr c))
            ''Authorization''
          = Some ((case ReqHeader req ''Authorization'' of None \<Rightarrow> [] | Some vs \<Rightarrow> vs)
                  @ [''Basic '' @ fst (getBasicAuthStr c)])"
    by (simp add: Header_Add_def canonical_keys)
next
  fix k :: string
  assume "k \<noteq> ''Authorization''"
  then show "Header_Add (ReqHeader req) ''Authorization'' (''Basic '' @ fst (getBasicAuthStr c)) k
              = ReqHeader req k"
    by (simp add: Header_Add_def canonical_keys)
next
  show "Header_Add (ReqHeader req) ''Authorization'' (''Basic '' @ fst (getBasicAuthStr c))
            ''User-Agent''
          = ReqHeader req ''User-Agent''"
    by (simp add: Header_Add_def canonical_keys)
next
  assume "ToLower E (schemeToken h) \<noteq> ''basic''"
  then show "addAuthHeader E c req h
        = Return (Some (Err (''Unsupported WWW-Authenticate Method: '' @ schemeToken h)), req, c)"
    by (simp add: addAuthHeader_eq)
next
  fix e req' c'
  assume "addAuthHeader E c req h = Return (Some e, req', c')"
  then show "req' = req"
    by (simp add: addAuthHeader_eq split: if_splits)
next
  assume "ToLower E [] \<noteq> ''basic''"
  moreover have "schemeToken (CHR '' '' # rest) = []"
    by (simp add: schemeToken_def)
  ultimately show "addAuthHeader E c req (CHR '' '' # rest)
        = Return (Some (Err ''Unsupported WWW-Authenticate Method: ''), req, c)"
    by (simp add: addAuthHeader_eq)
qed

theorem addAuthHeader_frame_witness:
  "ToLower testEnv (schemeToken ''Basic realm=x'') = ''basic''
   \<and> addAuthHeader testEnv (testClient [] ''user'' ''pass'') uaRequest ''Basic realm=x''
       = Return (None,
                 uaRequest\<lparr>ReqHeader := Header_Add (ReqHeader uaRequest) ''Authorization''
                                         ''Basic dXNlcjpwYXNz''\<rparr>,
                 (testClient [] ''user'' ''pass'')\<lparr>basicAuthStr := ''dXNlcjpwYXNz''\<rparr>)
   \<and> Header_Add (ReqHeader uaRequest) ''Authorization'' ''Basic dXNlcjpwYXNz'' ''Authorization''
       = Some [''Basic dXNlcjpwYXNz'']
   \<and> Header_Add (ReqHeader uaRequest) ''Authorization'' ''Basic dXNlcjpwYXNz'' ''User-Agent''
       = Some [''webborer'']
   \<and> ToLower testEnv (schemeToken ''Digest realm=x'') \<noteq> ''basic''
   \<and> addAuthHeader testEnv (testClient [] ''user'' ''pass'') uaRequest ''Digest realm=x''
       = Return (Some (Err ''Unsupported WWW-Authenticate Method: Digest''), uaRequest,
                 testClient [] ''user'' ''pass'')
   \<and> ToLower testEnv [] \<noteq> ''basic''
   \<and> addAuthHeader testEnv (testClient [] ''user'' ''pass'') uaRequest '' Basic realm=x''
       = Return (Some (Err ''Unsupported WWW-Authenticate Method: ''), uaRequest,
                 testClient [] ''user'' ''pass'')"
proof -
  let ?c = "testClient [] ''user'' ''pass''"
  have ua: "ReqHeader uaRequest ''Authorization'' = None"
    "ReqHeader uaRequest ''User-Agent'' = Some [''webborer'']"
    by (simp_all add: uaRequest_def getRequest_def)
  have g: "fst (getBasicAuthStr ?c) = ''dXNlcjpwYXNz''"
    "snd (getBasicAuthStr ?c) = ?c\<lparr>basicAuthStr := ''dXNlcjpwYXNz''\<rparr>"
    by (simp_all add: getBasicAuthStr_test)
  have digest: "schemeToken ''Digest realm=x'' = ''Digest''"
    by (simp add: schemeToken_def)
  have empty: "ToLower testEnv [] \<noteq> ''basic''"
    by (simp add: ToLower_testEnv)
  note basic = addAuthHeader_frame [of testEnv "''Basic realm=x''" ?c uaRequest,
      THEN conjunct1, rule_format, OF token_Basic]
  note other = addAuthHeader_frame [of testEnv "''Digest realm=x''" ?c uaRequest,
      THEN conjunct2, THEN conjunct1, rule_format, OF token_Digest]
  note space = addAuthHeader_frame [of testEnv _ ?c uaRequest "''Basic realm=x''",
      THEN conjunct2, THEN conjunct2, THEN conjunct2, rule_format, OF empty]
  from basic have b: "addAuthHeader testEnv ?c uaRequest ''Basic realm=x''
       = Return (None,
                 uaRequest\<lparr>ReqHeader := Header_Add (ReqHeader uaRequest) ''Authorization''
                                         ''Basic dXNlcjpwYXNz''\<rparr>,
                 ?c\<lparr>basicAuthStr := ''dXNlcjpwYXNz''\<rparr>)"
    "Header_Add (ReqHeader uaRequest) ''Authorization'' ''Basic dXNlcjpwYXNz'' ''Authorization''
       = Some [''Basic dXNlcjpwYXNz'']"
    "Header_Add (ReqHeader uaRequest) ''Authorization'' ''Basic dXNlcjpwYXNz'' ''User-Agent''
       = Some [''webborer'']"
    by (simp_all add: g ua)
  from other have d: "addAuthHeader testEnv ?c uaRequest ''Digest realm=x''
       = Return (Some (Err ''Unsupported WWW-Authenticate Method: Digest''), uaRequest, ?c)"
    by (simp add: digest)
  from space have s: "addAuthHeader testEnv ?c uaRequest '' Basic realm=x''
       = Return (Some (Err ''Unsupported WWW-Authenticate Method: ''), uaRequest, ?c)"
    by simp
  from b d s token_Basic token_Digest empty show ?thesis by blast
qed

end
